theory Spec2Isabelle
  imports Main
begin

section \<open>The integration registry of tracecat (\<^verbatim>\<open>tracecat/integrations/_registry.py\<close>)\<close>

text \<open>
  The module keeps a process-wide \<^verbatim>\<open>Registry\<close> with two dictionaries,
  \<^verbatim>\<open>_integrations\<close> (key to wrapped callable) and \<^verbatim>\<open>_metadata\<close> (key to
  a metadata dictionary). \<^verbatim>\<open>register\<close> is a decorator factory; the wrapper it
  stores fetches the declared secrets, writes them into \<^verbatim>\<open>os.environ\<close>, calls
  the original callable and deletes the secrets again in a \<^verbatim>\<open>finally\<close> block.

  Conventions of the embedding:
  \<^item> an exception is a value of \<open>py_error\<close>; a statement that may raise returns
    \<open>py_error + 'a\<close> (\<open>Inl\<close> the exception) together with the state it leaves;
  \<^item> \<^verbatim>\<open>os.environ\<close> is a dictionary from names to values, with the checks of
    CPython 3.11 on Linux: a name or value with a NUL byte, a name with \<^verbatim>\<open>=\<close> and
    the empty name are refused, \<^verbatim>\<open>del\<close> raises \<^verbatim>\<open>KeyError\<close> on a missing name;
  \<^item> the two dictionaries of the registry are association lists in insertion order,
    as Python dictionaries iterate;
  \<^item> the calls to \<^verbatim>\<open>logger\<close> neither raise nor touch the environment or the
    registry, and are left out;
  \<^item> the functions imported from other modules (\<^verbatim>\<open>validate_type_constraints\<close>,
    \<^verbatim>\<open>get_integration_platform\<close>, \<^verbatim>\<open>get_integration_key\<close>,
    \<^verbatim>\<open>param_to_spec\<close>, \<^verbatim>\<open>batch_get_secrets\<close>) are parameters, collected in
    the record \<open>ext\<close>; every theorem holds for all of them.
\<close>

subsection \<open>Exceptions and values\<close>

datatype py_error =
    AttributeError string
  | ValueError string
  | KeyError string
  | TypeError string
  | OSError nat string  \<comment> \<open>\<^verbatim>\<open>errno\<close> and message\<close>
  | Exc string string   \<comment> \<open>any other exception: class name and message\<close>

text \<open>\<^verbatim>\<open>tracecat.auth.Role\<close>: the wrapper reads \<^verbatim>\<open>role.user_id\<close> and builds the
  default \<^verbatim>\<open>Role(type="service")\<close>.\<close>

record role =
  role_type :: string
  user_id :: "string option"

text \<open>\<^verbatim>\<open>ParameterSpec\<close> and \<^verbatim>\<open>IntegrationSpec\<close> of \<^verbatim>\<open>tracecat.integrations._meta\<close>.\<close>

record param_spec =
  ps_name :: string
  ps_type :: string
  ps_required :: bool
  ps_default :: "string option"

record integration_spec =
  spec_name :: string
  spec_description :: string
  spec_docstring :: string
  spec_platform :: string
  spec_parameters :: "param_spec list"

datatype pyval =
    VNone
  | VBool bool
  | VInt int
  | VStr string
  | VRole role
  | VSpec integration_spec

subsection \<open>Dictionaries\<close>

text \<open>A Python \<^verbatim>\<open>dict\<close> in insertion order. \<open>dict_setitem\<close> is \<^verbatim>\<open>d[k] = v\<close>:
  an existing key keeps its position, a new key goes last.\<close>

type_synonym 'v dict = "(string \<times> 'v) list"

fun dict_setitem :: "'v dict \<Rightarrow> string \<Rightarrow> 'v \<Rightarrow> 'v dict" where
  "dict_setitem [] k v = [(k, v)]"
| "dict_setitem ((k', v') # d) k v =
     (if k' = k then (k, v) # d else (k', v') # dict_setitem d k v)"

definition dict_keys :: "'v dict \<Rightarrow> string list" where
  "dict_keys d = map fst d"

definition dict_contains :: "'v dict \<Rightarrow> string \<Rightarrow> bool" where
  "dict_contains d k = (map_of d k \<noteq> None)"

definition dict_getitem :: "'v dict \<Rightarrow> string \<Rightarrow> py_error + 'v" where
  "dict_getitem d k = (case map_of d k of None \<Rightarrow> Inl (KeyError k) | Some v \<Rightarrow> Inr v)"

text \<open>\<^verbatim>\<open>{**d, **e}\<close>: the items of \<open>e\<close> are stored into \<open>d\<close> one after the other.\<close>

fun dict_update :: "'v dict \<Rightarrow> 'v dict \<Rightarrow> 'v dict" where
  "dict_update d [] = d"
| "dict_update d ((k, v) # e) = dict_update (dict_setitem d k v) e"

subsection \<open>Secrets and the process environment\<close>

text \<open>\<^verbatim>\<open>tracecat.db.Secret\<close>: a name and an ordered list of key/value pairs.\<close>

record secret_kv =
  kv_key :: string
  kv_value :: string

record secret =
  secret_name :: string
  secret_keys :: "secret_kv list"

type_synonym environ = "string \<rightharpoonup> string"

text \<open>
  \<^verbatim>\<open>os.environ[k] = v\<close> and \<^verbatim>\<open>del os.environ[k]\<close>, as CPython 3.11 on Linux
  answers them:
  \<^item> a NUL byte in the name or the value: \<^verbatim>\<open>ValueError("embedded null byte")\<close>,
    from the conversion of the arguments of \<^verbatim>\<open>putenv\<close> and \<^verbatim>\<open>unsetenv\<close>;
  \<^item> \<^verbatim>\<open>=\<close> in the name:
    \<^verbatim>\<open>ValueError("illegal environment variable name")\<close> on assignment,
    \<^verbatim>\<open>OSError(22, "Invalid argument")\<close> on deletion;
  \<^item> the empty name: \<^verbatim>\<open>OSError(22, "Invalid argument")\<close> on both;
  \<^item> deletion of a name that is not there: \<^verbatim>\<open>KeyError\<close>, raised after
    \<^verbatim>\<open>unsetenv\<close> has returned.
  An operation that raises leaves the environment as it was.
\<close>

definition has_nul :: "string \<Rightarrow> bool" where
  "has_nul s \<longleftrightarrow> CHR 0x00 \<in> set s"

definition environ_setitem :: "environ \<Rightarrow> string \<Rightarrow> string \<Rightarrow> py_error + environ" where
  "environ_setitem env k v =
     (if has_nul k \<or> has_nul v then Inl (ValueError ''embedded null byte'')
      else if CHR ''='' \<in> set k then Inl (ValueError ''illegal environment variable name'')
      else if k = [] then Inl (OSError 22 ''Invalid argument'')
      else Inr (env(k \<mapsto> v)))"

definition environ_delitem :: "environ \<Rightarrow> string \<Rightarrow> py_error + environ" where
  "environ_delitem env k =
     (if has_nul k then Inl (ValueError ''embedded null byte'')
      else if CHR ''='' \<in> set k \<or> k = [] then Inl (OSError 22 ''Invalid argument'')
      else (case env k of
              None \<Rightarrow> Inl (KeyError k)
            | Some _ \<Rightarrow> Inr (env(k := None))))"

text \<open>The names and the pairs that \<^verbatim>\<open>os.environ\<close> accepts.\<close>

definition legal_name :: "string \<Rightarrow> bool" where
  "legal_name k \<longleftrightarrow> k \<noteq> [] \<and> CHR ''='' \<notin> set k \<and> \<not> has_nul k"


text \<open>\<^verbatim>\<open>_set_secrets\<close>: the inner loop over \<^verbatim>\<open>secret.keys\<close>, then the outer loop.
  The loops stop at the first assignment that raises; what was set before it stays
  set.\<close>

fun set_secret_keys :: "secret_kv list \<Rightarrow> environ \<Rightarrow> (py_error + unit) \<times> environ" where
  "set_secret_keys [] env = (Inr (), env)"
| "set_secret_keys (kv # kvs) env =
     (case environ_setitem env (kv_key kv) (kv_value kv) of
        Inl e \<Rightarrow> (Inl e, env)
      | Inr env' \<Rightarrow> set_secret_keys kvs env')"

fun set_secrets :: "secret list \<Rightarrow> environ \<Rightarrow> (py_error + unit) \<times> environ" where
  "set_secrets [] env = (Inr (), env)"
| "set_secrets (s # ss) env =
     (case set_secret_keys (secret_keys s) env of
        (Inl e, env') \<Rightarrow> (Inl e, env')
      | (Inr _, env') \<Rightarrow> set_secrets ss env')"

text \<open>\<^verbatim>\<open>_unset_secrets\<close>: the loops stop at the first \<^verbatim>\<open>del\<close> that raises, and
  everything deleted before it stays deleted.\<close>

fun unset_secret_keys :: "secret_kv list \<Rightarrow> environ \<Rightarrow> (py_error + unit) \<times> environ" where
  "unset_secret_keys [] env = (Inr (), env)"
| "unset_secret_keys (kv # kvs) env =
     (case environ_delitem env (kv_key kv) of
        Inl e \<Rightarrow> (Inl e, env)
      | Inr env' \<Rightarrow> unset_secret_keys kvs env')"

fun unset_secrets :: "secret list \<Rightarrow> environ \<Rightarrow> (py_error + unit) \<times> environ" where
  "unset_secrets [] env = (Inr (), env)"
| "unset_secrets (s # ss) env =
     (case unset_secret_keys (secret_keys s) env of
        (Inl e, env') \<Rightarrow> (Inl e, env')
      | (Inr _, env') \<Rightarrow> unset_secrets ss env')"

text \<open>The environment names a list of secret records carries, in the order the loops
  visit them.\<close>

definition injected_keys :: "secret list \<Rightarrow> string list" where
  "injected_keys ss = concat (map (\<lambda>s. map kv_key (secret_keys s)) ss)"


subsection \<open>Callables\<close>

text \<open>The state a call runs in: the process environment, and a trace of the calls made
  to original (unwrapped) callables, each with the positional and keyword arguments it
  received. The trace is a ghost variable: no code reads it.\<close>

type_synonym kwargs = "string \<rightharpoonup> pyval"

record world =
  environ :: environ
  calls :: "(pyval list \<times> kwargs) list"

text \<open>\<^verbatim>\<open>inspect.Parameter\<close>, as far as \<^verbatim>\<open>param_to_spec\<close> may look at it.\<close>

record param =
  p_annotation :: "string option"
  p_default :: "string option"

text \<open>
  The object handed to the decorator, by what the module does with it:
  \<^item> \<open>dunder_name\<close>: \<^verbatim>\<open>func.__name__\<close>, \<open>None\<close> when the attribute is missing
    (the access raises \<^verbatim>\<open>AttributeError\<close>);
  \<^item> \<open>is_callable\<close>: \<^verbatim>\<open>callable(func)\<close>;
  \<^item> \<open>dunder_annotations\<close>: \<^verbatim>\<open>func.__annotations__\<close>, each annotation by its
    \<^verbatim>\<open>str\<close>; \<open>None\<close> when the attribute is missing;
  \<^item> \<open>dunder_doc\<close>: \<^verbatim>\<open>func.__doc__\<close> (\<open>None\<close> is Python's \<^verbatim>\<open>None\<close>);
  \<^item> \<open>signature\<close>: \<^verbatim>\<open>inspect.signature(func).parameters.items()\<close>, or the
    exception it raises;
  \<^item> \<open>body\<close>: what \<^verbatim>\<open>func(*args, **kwargs)\<close> does to the environment and returns
    or raises.
\<close>

record pyobject =
  dunder_name :: "string option"
  is_callable :: bool
  dunder_annotations :: "(string \<rightharpoonup> string) option"
  dunder_doc :: "string option"
  signature :: "py_error + (string \<times> param) list"
  body :: "pyval list \<Rightarrow> kwargs \<Rightarrow> environ \<Rightarrow> (py_error + pyval) \<times> environ"

text \<open>\<^verbatim>\<open>func(*args, **kwargs)\<close>: calling an object that is not callable raises
  \<^verbatim>\<open>TypeError\<close>; a call that happens is appended to the trace.\<close>

definition call_func ::
  "pyobject \<Rightarrow> pyval list \<Rightarrow> kwargs \<Rightarrow> world \<Rightarrow> (py_error + pyval) \<times> world" where
  "call_func func args kw st =
     (if is_callable func then
        (case body func args kw (environ st) of
           (r, env') \<Rightarrow> (r, \<lparr>environ = env', calls = calls st @ [(args, kw)]\<rparr>))
      else (Inl (TypeError ''object is not callable''), st))"

subsection \<open>The imported functions\<close>

record ext =
  validate_type_constraints :: "pyobject \<Rightarrow> py_error option"
    \<comment> \<open>\<open>None\<close>: returns; \<open>Some e\<close>: raises \<open>e\<close>\<close>
  get_integration_platform :: "pyobject \<Rightarrow> py_error + string"
  get_integration_key :: "pyobject \<Rightarrow> py_error + string"
  param_to_spec :: "string \<Rightarrow> param \<Rightarrow> py_error + param_spec"
  batch_get_secrets :: "role \<Rightarrow> string list \<Rightarrow> py_error + secret list"

subsection \<open>The registry\<close>

text \<open>The closure \<^verbatim>\<open>wrapper\<close> by the variables it captures: \<^verbatim>\<open>func\<close>, \<^verbatim>\<open>key\<close> and
  the \<^verbatim>\<open>secrets\<close> argument of \<^verbatim>\<open>register\<close> (\<open>None\<close> is Python's \<^verbatim>\<open>None\<close>).\<close>

record wrapped =
  w_func :: pyobject
  w_key :: string
  w_secrets :: "string list option"

record registry =
  integrations :: "wrapped dict"
  metadata :: "pyval dict dict"

text \<open>\<^verbatim>\<open>Registry.__new__\<close> on first construction.\<close>

definition new_registry :: registry where
  "new_registry = \<lparr>integrations = [], metadata = []\<rparr>"

text \<open>The list comprehension of \<^verbatim>\<open>_create_spec\<close>: the first \<^verbatim>\<open>param_to_spec\<close> that
  raises ends it.\<close>

fun param_list :: "ext \<Rightarrow> (string \<times> param) list \<Rightarrow> py_error + param_spec list" where
  "param_list X [] = Inr []"
| "param_list X ((n, p) # ps) =
     (case param_to_spec X n p of
        Inl e \<Rightarrow> Inl e
      | Inr s \<Rightarrow> (case param_list X ps of Inl e \<Rightarrow> Inl e | Inr ss \<Rightarrow> Inr (s # ss)))"

text \<open>\<^verbatim>\<open>func.__doc__ or "No documentation provided."\<close>: \<^verbatim>\<open>None\<close> and the empty
  string are both falsy.\<close>

definition docstring_of :: "pyobject \<Rightarrow> string" where
  "docstring_of func =
     (case dunder_doc func of
        None \<Rightarrow> ''No documentation provided.''
      | Some d \<Rightarrow> if d = [] then ''No documentation provided.'' else d)"

definition create_spec :: "ext \<Rightarrow> pyobject \<Rightarrow> string \<Rightarrow> py_error + integration_spec" where
  "create_spec X func description =
     (case signature func of
        Inl e \<Rightarrow> Inl e
      | Inr params \<Rightarrow>
     (case param_list X params of
        Inl e \<Rightarrow> Inl e
      | Inr plist \<Rightarrow>
     (case get_integration_platform X func of
        Inl e \<Rightarrow> Inl e
      | Inr platform \<Rightarrow>
     (case dunder_name func of
        None \<Rightarrow> Inl (AttributeError ''__name__'')
      | Some nm \<Rightarrow>
          Inr \<lparr>spec_name = nm, spec_description = description,
               spec_docstring = docstring_of func, spec_platform = platform,
               spec_parameters = plist\<rparr>))))"

text \<open>The two messages of \<^verbatim>\<open>decorator_register\<close>.\<close>

definition already_registered :: "string \<Rightarrow> py_error" where
  "already_registered key =
     ValueError (''Integration '' @ [CHR 0x27] @ key @ [CHR 0x27] @ '' is already registered.'')"

definition not_callable :: py_error where
  "not_callable = ValueError ''Provided object is not a callable function.''"

text \<open>\<^verbatim>\<open>str(func.__annotations__.get("return"))\<close>.\<close>

definition return_type_of :: "(string \<rightharpoonup> string) \<Rightarrow> string" where
  "return_type_of ann = (case ann ''return'' of None \<Rightarrow> ''None'' | Some s \<Rightarrow> s)"

text \<open>
  \<^verbatim>\<open>decorator_register\<close>, statement by statement: the \<^verbatim>\<open>__name__\<close> read by the
  first log call, validation, platform, key, the two checks, the store into
  \<^verbatim>\<open>_integrations\<close>, then the metadata dictionary (whose construction reads
  \<^verbatim>\<open>func.__annotations__\<close> and calls \<^verbatim>\<open>_create_spec\<close>) and the store into
  \<^verbatim>\<open>_metadata\<close>. An exception leaves the registry as the statements before it made
  it.
\<close>

definition decorator_register ::
  "ext \<Rightarrow> string \<Rightarrow> string list option \<Rightarrow> pyval dict \<Rightarrow> pyobject \<Rightarrow> registry
     \<Rightarrow> (py_error + wrapped) \<times> registry" where
  "decorator_register X description secrets integration_kwargs func reg =
     (case dunder_name func of
        None \<Rightarrow> (Inl (AttributeError ''__name__''), reg)
      | Some _ \<Rightarrow>
     (case validate_type_constraints X func of
        Some e \<Rightarrow> (Inl e, reg)
      | None \<Rightarrow>
     (case get_integration_platform X func of
        Inl e \<Rightarrow> (Inl e, reg)
      | Inr platform \<Rightarrow>
     (case get_integration_key X func of
        Inl e \<Rightarrow> (Inl e, reg)
      | Inr key \<Rightarrow>
          if dict_contains (integrations reg) key then (Inl (already_registered key), reg)
          else if \<not> is_callable func then (Inl not_callable, reg)
          else
            let wrapper = \<lparr>w_func = func, w_key = key, w_secrets = secrets\<rparr>;
                reg1 = reg\<lparr>integrations := dict_setitem (integrations reg) key wrapper\<rparr>
            in
            (case dunder_annotations func of
               None \<Rightarrow> (Inl (AttributeError ''__annotations__''), reg1)
             | Some ann \<Rightarrow>
            (case create_spec X func description of
               Inl e \<Rightarrow> (Inl e, reg1)
             | Inr spec \<Rightarrow>
                 (Inr wrapper,
                  reg1\<lparr>metadata := dict_setitem (metadata reg1) key
                    (dict_update
                       [(''platform'', VStr platform),
                        (''description'', VStr description),
                        (''return_type'', VStr (return_type_of ann)),
                        (''specification'', VSpec spec)]
                       integration_kwargs)\<rparr>)))))))"

text \<open>\<^verbatim>\<open>get_registered_integration_specs\<close>: for each key of \<^verbatim>\<open>integrations\<close>, in
  order, \<^verbatim>\<open>self.metadata[key]["specification"]\<close>; either subscript may raise
  \<^verbatim>\<open>KeyError\<close>.\<close>

fun specs_of_keys :: "pyval dict dict \<Rightarrow> string list \<Rightarrow> py_error + pyval list" where
  "specs_of_keys md [] = Inr []"
| "specs_of_keys md (k # ks) =
     (case dict_getitem md k of
        Inl e \<Rightarrow> Inl e
      | Inr m \<Rightarrow>
     (case dict_getitem m ''specification'' of
        Inl e \<Rightarrow> Inl e
      | Inr v \<Rightarrow>
     (case specs_of_keys md ks of
        Inl e \<Rightarrow> Inl e
      | Inr vs \<Rightarrow> Inr (v # vs))))"

definition get_registered_integration_specs :: "registry \<Rightarrow> py_error + pyval list" where
  "get_registered_integration_specs reg =
     specs_of_keys (metadata reg) (dict_keys (integrations reg))"

definition list_integrations :: "registry \<Rightarrow> string list" where
  "list_integrations reg = dict_keys (integrations reg)"

subsection \<open>The wrapper\<close>

text \<open>\<^verbatim>\<open>kwargs.pop("__role", Role(type="service"))\<close>: the value popped, and the
  keyword arguments that remain.\<close>

definition default_role :: role where
  "default_role = \<lparr>role_type = ''service'', user_id = None\<rparr>"

definition pop_role :: "kwargs \<Rightarrow> pyval" where
  "pop_role kwargs = (case kwargs ''__role'' of None \<Rightarrow> VRole default_role | Some v \<Rightarrow> v)"

definition without_role :: "kwargs \<Rightarrow> kwargs" where
  "without_role kwargs = kwargs(''__role'' := None)"

text \<open>
  The \<^verbatim>\<open>try\<close> block of \<^verbatim>\<open>wrapper\<close>. It returns the outcome of the block, the value
  of \<^verbatim>\<open>secret_objs\<close> when the block is left, and the state. \<^verbatim>\<open>if secrets:\<close> is
  taken for a list that is neither \<^verbatim>\<open>None\<close> nor empty; \<^verbatim>\<open>secret_objs\<close> is
  assigned only when \<^verbatim>\<open>_get_secrets\<close> returns. When \<^verbatim>\<open>_set_secrets\<close> raises,
  the block is left without the call of \<^verbatim>\<open>func\<close>, with \<^verbatim>\<open>secret_objs\<close>
  assigned and the names set so far in the environment.
\<close>

definition wrapper_try ::
  "ext \<Rightarrow> wrapped \<Rightarrow> role \<Rightarrow> pyval list \<Rightarrow> kwargs \<Rightarrow> world
     \<Rightarrow> (py_error + pyval) \<times> secret list \<times> world" where
  "wrapper_try X w r args kw st =
     (case w_secrets w of
        None \<Rightarrow> (case call_func (w_func w) args kw st of (res, st') \<Rightarrow> (res, [], st'))
      | Some names \<Rightarrow>
          if names = [] then
            (case call_func (w_func w) args kw st of (res, st') \<Rightarrow> (res, [], st'))
          else
            (case batch_get_secrets X r names of
               Inl e \<Rightarrow> (Inl e, [], st)
             | Inr secret_objs \<Rightarrow>
                 (case set_secrets secret_objs (environ st) of
                    (Inl e, env1) \<Rightarrow> (Inl e, secret_objs, st\<lparr>environ := env1\<rparr>)
                  | (Inr _, env1) \<Rightarrow>
                      (case call_func (w_func w) args kw (st\<lparr>environ := env1\<rparr>) of
                         (res, st') \<Rightarrow> (res, secret_objs, st')))))"

text \<open>
  \<^verbatim>\<open>wrapper(*args, **kwargs)\<close>: the pop of \<^verbatim>\<open>"__role"\<close>, the read of
  \<^verbatim>\<open>role.user_id\<close> (outside the \<^verbatim>\<open>try\<close>; \<^verbatim>\<open>AttributeError\<close> for a value that
  is not a \<^verbatim>\<open>Role\<close>), the \<^verbatim>\<open>try\<close> block, the \<^verbatim>\<open>except\<close> clause that logs and
  re-raises, and the \<^verbatim>\<open>finally\<close> clause: an exception of \<^verbatim>\<open>_unset_secrets\<close>
  replaces the outcome of the block.
\<close>

definition wrapper ::
  "ext \<Rightarrow> wrapped \<Rightarrow> pyval list \<Rightarrow> kwargs \<Rightarrow> world \<Rightarrow> (py_error + pyval) \<times> world" where
  "wrapper X w args kwargs st =
     (case pop_role kwargs of
        VRole r \<Rightarrow>
          (case wrapper_try X w r args (without_role kwargs) st of
             (res, secret_objs, st1) \<Rightarrow>
               (case unset_secrets secret_objs (environ st1) of
                  (Inl e, env2) \<Rightarrow> (Inl e, st1\<lparr>environ := env2\<rparr>)
                | (Inr _, env2) \<Rightarrow> (res, st1\<lparr>environ := env2\<rparr>)))
      | _ \<Rightarrow> (Inl (AttributeError ''user_id''), st))"

text \<open>The value \<^verbatim>\<open>secret_objs\<close> has once the \<^verbatim>\<open>try\<close> block is past the fetch:
  the fetched records when secrets are declared, the empty list when none are;
  \<open>Inl e\<close> when the fetch raises \<open>e\<close>.\<close>

definition fetch_declared :: "ext \<Rightarrow> wrapped \<Rightarrow> role \<Rightarrow> py_error + secret list" where
  "fetch_declared X w r =
     (case w_secrets w of
        None \<Rightarrow> Inr []
      | Some names \<Rightarrow> if names = [] then Inr [] else batch_get_secrets X r names)"

text \<open>Whether an invocation gets as far as calling \<^verbatim>\<open>func\<close>: the role is a
  \<^verbatim>\<open>Role\<close>, the fetch (if any) returns, \<^verbatim>\<open>_set_secrets\<close> returns, and the
  object is callable.\<close>

definition reaches_call :: "ext \<Rightarrow> wrapped \<Rightarrow> kwargs \<Rightarrow> environ \<Rightarrow> bool" where
  "reaches_call X w kwargs env =
     (case pop_role kwargs of
        VRole r \<Rightarrow>
          (case fetch_declared X w r of
             Inl _ \<Rightarrow> False
           | Inr ss \<Rightarrow>
               (case set_secrets ss env of
                  (Inl _, _) \<Rightarrow> False
                | (Inr _, _) \<Rightarrow> is_callable (w_func w)))
      | _ \<Rightarrow> False)"

subsection \<open>Example inputs\<close>

text \<open>A secrets store that answers a batch only when it holds every requested name.\<close>

fun fetch_all :: "secret dict \<Rightarrow> string list \<Rightarrow> py_error + secret list" where
  "fetch_all store [] = Inr []"
| "fetch_all store (n # ns) =
     (case map_of store n of
        None \<Rightarrow> Inl (Exc ''SecretNotFound'' n)
      | Some s \<Rightarrow> (case fetch_all store ns of Inl e \<Rightarrow> Inl e | Inr ss \<Rightarrow> Inr (s # ss)))"

text \<open>Collaborators for the examples: validation rejects a parameter annotated with a
  union, the platform is the default one, the key is built from the platform and
  \<^verbatim>\<open>__name__\<close>.\<close>

definition example_ext :: "secret dict \<Rightarrow> ext" where
  "example_ext store =
     \<lparr>validate_type_constraints =
        (\<lambda>f. case signature f of
                Inl e \<Rightarrow> Some e
              | Inr ps \<Rightarrow>
                  if list_ex (\<lambda>np. p_annotation (snd np) = Some ''int | str'') ps
                  then Some (ValueError ''Unsupported type'') else None),
      get_integration_platform = (\<lambda>f. Inr ''default''),
      get_integration_key =
        (\<lambda>f. case dunder_name f of
                None \<Rightarrow> Inl (AttributeError ''__name__'')
              | Some n \<Rightarrow> Inr (''integrations.default.'' @ n)),
      param_to_spec =
        (\<lambda>n p. Inr \<lparr>ps_name = n,
                    ps_type = (case p_annotation p of None \<Rightarrow> ''Any'' | Some a \<Rightarrow> a),
                    ps_required = (p_default p = None), ps_default = p_default p\<rparr>),
      batch_get_secrets = (\<lambda>r names. fetch_all store names)\<rparr>"

definition smtp_host :: secret where
  "smtp_host = \<lparr>secret_name = ''smtp_host'',
                 secret_keys = [\<lparr>kv_key = ''HOST'', kv_value = ''mail.example.org''\<rparr>]\<rparr>"

definition token_a :: secret where
  "token_a = \<lparr>secret_name = ''a'', secret_keys = [\<lparr>kv_key = ''TOKEN'', kv_value = ''1''\<rparr>]\<rparr>"

definition token_b :: secret where
  "token_b = \<lparr>secret_name = ''b'', secret_keys = [\<lparr>kv_key = ''TOKEN'', kv_value = ''2''\<rparr>]\<rparr>"

definition example_store :: "secret dict" where
  "example_store = [(''smtp_host'', smtp_host), (''a'', token_a), (''b'', token_b)]"



definition home_env :: environ where
  "home_env = [''HOME'' \<mapsto> ''/root'']"

definition empty_world :: world where
  "empty_world = \<lparr>environ = Map.empty, calls = []\<rparr>"

text \<open>\<^verbatim>\<open>def send_email(to: str) -> str\<close>, returning normally.\<close>

definition send_email :: pyobject where
  "send_email =
     \<lparr>dunder_name = Some ''send_email'', is_callable = True,
      dunder_annotations = Some [''to'' \<mapsto> ''str'', ''return'' \<mapsto> ''str''],
      dunder_doc = Some ''Send an email.'',
      signature = Inr [(''to'', \<lparr>p_annotation = Some ''str'', p_default = None\<rparr>)],
      body = (\<lambda>args kw env. (Inr (VStr ''sent''), env))\<rparr>"

text \<open>A second \<^verbatim>\<open>send_email\<close> whose parameter is annotated \<^verbatim>\<open>int | str\<close>.\<close>

definition send_email_union :: pyobject where
  "send_email_union =
     \<lparr>dunder_name = Some ''send_email'', is_callable = True,
      dunder_annotations = Some [''to'' \<mapsto> ''int | str'', ''return'' \<mapsto> ''str''],
      dunder_doc = None,
      signature = Inr [(''to'', \<lparr>p_annotation = Some ''int | str'', p_default = None\<rparr>)],
      body = (\<lambda>args kw env. (Inr (VStr ''sent''), env))\<rparr>"

text \<open>\<^verbatim>\<open>def send_email(to: str, retries: int | str = 3) -> str\<close>.\<close>

definition send_email_retries :: pyobject where
  "send_email_retries =
     \<lparr>dunder_name = Some ''send_email'', is_callable = True,
      dunder_annotations =
        Some [''to'' \<mapsto> ''str'', ''retries'' \<mapsto> ''int | str'', ''return'' \<mapsto> ''str''],
      dunder_doc = None,
      signature = Inr [(''to'', \<lparr>p_annotation = Some ''str'', p_default = None\<rparr>),
                       (''retries'', \<lparr>p_annotation = Some ''int | str'', p_default = Some ''3''\<rparr>)],
      body = (\<lambda>args kw env. (Inr (VStr ''sent''), env))\<rparr>"

text \<open>\<^verbatim>\<open>def echo_cc(to, **kw): return "role seen" if "__role" in kw else kw.get("cc")\<close>.\<close>

definition echo_cc :: pyobject where
  "echo_cc =
     \<lparr>dunder_name = Some ''echo_cc'', is_callable = True,
      dunder_annotations = Some Map.empty, dunder_doc = None,
      signature = Inr [(''to'', \<lparr>p_annotation = None, p_default = None\<rparr>)],
      body = (\<lambda>args kw env.
                (Inr (case kw ''__role'' of
                        Some _ \<Rightarrow> VStr ''role seen''
                      | None \<Rightarrow> (case kw ''cc'' of None \<Rightarrow> VNone | Some v \<Rightarrow> v)), env))\<rparr>"

text \<open>\<^verbatim>\<open>def explode(): raise RuntimeError("boom")\<close>.\<close>

definition explode :: pyobject where
  "explode =
     \<lparr>dunder_name = Some ''explode'', is_callable = True,
      dunder_annotations = Some Map.empty, dunder_doc = None,
      signature = Inr [],
      body = (\<lambda>args kw env. (Inl (Exc ''RuntimeError'' ''boom''), env))\<rparr>"


text \<open>The integer \<^verbatim>\<open>42\<close>: not callable, no \<^verbatim>\<open>__name__\<close>, no \<^verbatim>\<open>__annotations__\<close>.\<close>

definition int_object :: pyobject where
  "int_object =
     \<lparr>dunder_name = None, is_callable = False, dunder_annotations = None,
      dunder_doc = Some ''int([x]) -> integer'',
      signature = Inl (TypeError ''42 is not a callable object''),
      body = (\<lambda>args kw env. (Inl (TypeError ''object is not callable''), env))\<rparr>"

text \<open>A module object named \<^verbatim>\<open>helpers\<close>: it has a \<^verbatim>\<open>__name__\<close> and is not callable.\<close>

definition module_object :: pyobject where
  "module_object =
     \<lparr>dunder_name = Some ''helpers'', is_callable = False, dunder_annotations = None,
      dunder_doc = None, signature = Inr [],
      body = (\<lambda>args kw env. (Inl (TypeError ''object is not callable''), env))\<rparr>"

text \<open>The builtin \<^verbatim>\<open>len\<close>: callable, named, with a signature \<^verbatim>\<open>(obj, /)\<close>, and
  without \<^verbatim>\<open>__annotations__\<close>.\<close>

definition builtin_len :: pyobject where
  "builtin_len =
     \<lparr>dunder_name = Some ''len'', is_callable = True, dunder_annotations = None,
      dunder_doc = Some ''Return the number of items in a container.'',
      signature = Inr [(''obj'', \<lparr>p_annotation = None, p_default = None\<rparr>)],
      body = (\<lambda>args kw env. (Inr (VInt 0), env))\<rparr>"

text \<open>The registry after \<^verbatim>\<open>register("Send mail")(send_email)\<close> on a new registry.\<close>

definition send_email_registered :: registry where
  "send_email_registered =
     snd (decorator_register (example_ext example_store) ''Send mail'' None [] send_email
            new_registry)"

subsection \<open>Sequences of registrations\<close>

text \<open>One call \<^verbatim>\<open>registry.register(description, secrets, **kwargs)(func)\<close>.\<close>

record attempt =
  a_description :: string
  a_secrets :: "string list option"
  a_kwargs :: "pyval dict"
  a_func :: pyobject

definition register_attempt :: "ext \<Rightarrow> attempt \<Rightarrow> registry \<Rightarrow> (py_error + wrapped) \<times> registry" where
  "register_attempt X a reg =
     decorator_register X (a_description a) (a_secrets a) (a_kwargs a) (a_func a) reg"

text \<open>The attempts run one after the other; an exception of one attempt is caught by
  the caller and the next attempt runs on the registry the failed one left.\<close>

fun register_all :: "ext \<Rightarrow> attempt list \<Rightarrow> registry \<Rightarrow> registry" where
  "register_all X [] reg = reg"
| "register_all X (a # as) reg = register_all X as (snd (register_attempt X a reg))"

text \<open>An attempt ends between the two stores when it raises although the checks have
  passed: the wrapper is in \<^verbatim>\<open>_integrations\<close> and the metadata is not built.\<close>

definition fails_between_stores :: "ext \<Rightarrow> attempt \<Rightarrow> registry \<Rightarrow> bool" where
  "fails_between_stores X a reg =
     (case register_attempt X a reg of
        (Inl _, reg') \<Rightarrow> integrations reg' \<noteq> integrations reg
      | (Inr _, _) \<Rightarrow> False)"

fun some_fails_between_stores :: "ext \<Rightarrow> attempt list \<Rightarrow> registry \<Rightarrow> bool" where
  "some_fails_between_stores X [] reg = False"
| "some_fails_between_stores X (a # as) reg =
     (fails_between_stores X a reg \<or>
      some_fails_between_stores X as (snd (register_attempt X a reg)))"

text \<open>The two dictionaries have the same keys in the same order, no key twice, and
  every metadata dictionary has a \<^verbatim>\<open>"specification"\<close>.\<close>

definition consistent :: "registry \<Rightarrow> bool" where
  "consistent reg \<longleftrightarrow>
     dict_keys (integrations reg) = dict_keys (metadata reg) \<and>
     distinct (dict_keys (integrations reg)) \<and>
     list_all (\<lambda>km. dict_contains (snd km) ''specification'') (metadata reg)"

section \<open>The environment scope\<close>

subsection \<open>Single assignments and deletions\<close>



lemma environ_delitem_legal:
  "legal_name k \<Longrightarrow>
     environ_delitem env k =
       (case env k of None \<Rightarrow> Inl (KeyError k) | Some _ \<Rightarrow> Inr (env(k := None)))"
  by (simp add: environ_delitem_def legal_name_def)


lemma environ_delitem_absent:
  "env k = None \<Longrightarrow> \<exists>e. environ_delitem env k = Inl e \<and> (legal_name k \<longrightarrow> e = KeyError k)"
  by (simp add: environ_delitem_def legal_name_def)

subsection \<open>The two loops on the flattened list of pairs\<close>



lemma unset_secret_keys_append:
  "unset_secret_keys (a @ b) env =
     (case unset_secret_keys a env of
        (Inl e, env') \<Rightarrow> (Inl e, env')
      | (Inr u, env') \<Rightarrow> unset_secret_keys b env')"
  by (induction a arbitrary: env) (auto split: sum.splits)

lemma unset_secrets_flat:
  "unset_secrets ss env = unset_secret_keys (concat (map secret_keys ss)) env"
  by (induction ss arbitrary: env)
     (auto simp: unset_secret_keys_append split: prod.splits sum.splits)

lemma injected_keys_flat:
  "injected_keys ss = map kv_key (concat (map secret_keys ss))"
  by (induction ss) (auto simp: injected_keys_def)




text \<open>The deletions all go through exactly when the names are accepted, pairwise
  distinct and all present; then the names are gone and nothing else has changed.\<close>

lemma unset_secret_keys_ok:
  "list_all (\<lambda>kv. legal_name (kv_key kv)) kvs \<Longrightarrow> distinct (map kv_key kvs) \<Longrightarrow>
   kv_key ` set kvs \<subseteq> dom env \<Longrightarrow>
     unset_secret_keys kvs env = (Inr (), env |` (- kv_key ` set kvs))"
proof (induction kvs arbitrary: env)
  case Nil
  then show ?case by simp
next
  case (Cons kv kvs)
  from Cons.prems obtain v where v: "env (kv_key kv) = Some v" by auto
  from Cons.prems have l: "legal_name (kv_key kv)" by simp
  have "kv_key ` set kvs \<subseteq> dom (env(kv_key kv := None))"
  proof
    fix x assume "x \<in> kv_key ` set kvs"
    moreover from Cons.prems have "kv_key kv \<notin> kv_key ` set kvs" by simp
    moreover from Cons.prems have "kv_key ` set kvs \<subseteq> dom env" by simp
    ultimately have "x \<in> dom env" "x \<noteq> kv_key kv" by blast+
    then show "x \<in> dom (env(kv_key kv := None))" by simp
  qed
  with Cons have "unset_secret_keys kvs (env(kv_key kv := None)) =
      (Inr (), (env(kv_key kv := None)) |` (- kv_key ` set kvs))"
    by simp
  moreover have "(env(kv_key kv := None)) |` (- kv_key ` set kvs) =
      env |` (- kv_key ` set (kv # kvs))"
    by (auto simp: restrict_map_def fun_eq_iff)
  ultimately show ?case using v l by (simp add: environ_delitem_legal)
qed



lemma legal_names_flat:
  "list_all legal_name (injected_keys ss) \<longleftrightarrow>
     list_all (\<lambda>kv. legal_name (kv_key kv)) (concat (map secret_keys ss))"
  by (simp add: injected_keys_flat list_all_iff)

lemma unset_secrets_ok:
  assumes "list_all legal_name (injected_keys ss)"
    and "distinct (injected_keys ss)" and "set (injected_keys ss) \<subseteq> dom env"
  shows "unset_secrets ss env = (Inr (), env |` (- set (injected_keys ss)))"
proof -
  let ?kvs = "concat (map secret_keys ss)"
  have "unset_secret_keys ?kvs env = (Inr (), env |` (- kv_key ` set ?kvs))"
    using assms legal_names_flat[of ss]
    by (intro unset_secret_keys_ok) (simp_all add: injected_keys_flat)
  then show ?thesis
    by (simp add: unset_secrets_flat injected_keys_flat)
qed










section \<open>The wrapper\<close>

lemma wrapper_try_eq:
  "wrapper_try X w r args kw st =
     (case fetch_declared X w r of
        Inl e \<Rightarrow> (Inl e, [], st)
      | Inr ss \<Rightarrow>
          (case set_secrets ss (environ st) of
             (Inl e, env1) \<Rightarrow> (Inl e, ss, st\<lparr>environ := env1\<rparr>)
           | (Inr u, env1) \<Rightarrow>
               (case call_func (w_func w) args kw (st\<lparr>environ := env1\<rparr>) of
                  (res, st') \<Rightarrow> (res, ss, st'))))"
  by (simp add: wrapper_try_def fetch_declared_def split: option.splits sum.splits prod.splits)

lemma calls_call_func:
  "calls (snd (call_func f args kw st)) = calls st @ (if is_callable f then [(args, kw)] else [])"
  by (simp add: call_func_def split: prod.splits)

text \<open>
  \<^bold>\<open>C5\<close>. When the integration declares secret names and the fetch raises \<open>e\<close>, the
  wrapper raises \<open>e\<close> and the state is the one from before the invocation: no
  environment name is added or removed, and the trace of calls to the original
  callable has not grown.
\<close>

theorem fetch_failure_propagates:
  assumes "pop_role kwargs = VRole r"
    and "w_secrets w = Some names" and "names \<noteq> []"
    and "batch_get_secrets X r names = Inl e"
  shows "wrapper X w args kwargs st = (Inl e, st) \<and>
         environ (snd (wrapper X w args kwargs st)) = environ st \<and>
         calls (snd (wrapper X w args kwargs st)) = calls st"
  using assms by (simp add: wrapper_def wrapper_try_def)

text \<open>Witness: \<^verbatim>\<open>send_email\<close> declares the secret \<^verbatim>\<open>smtp_creds\<close>, which the store
  does not hold.\<close>

theorem fetch_failure_propagates_witness:
  "pop_role [''__role'' \<mapsto> VRole \<lparr>role_type = ''user'', user_id = Some ''u1''\<rparr>]
     = VRole \<lparr>role_type = ''user'', user_id = Some ''u1''\<rparr>
   \<and> batch_get_secrets (example_ext example_store) \<lparr>role_type = ''user'', user_id = Some ''u1''\<rparr>
       [''smtp_creds''] = Inl (Exc ''SecretNotFound'' ''smtp_creds'')
   \<and> wrapper (example_ext example_store)
       \<lparr>w_func = send_email, w_key = ''integrations.default.send_email'',
        w_secrets = Some [''smtp_creds'']\<rparr>
       [VStr ''bob''] [''__role'' \<mapsto> VRole \<lparr>role_type = ''user'', user_id = Some ''u1''\<rparr>]
       \<lparr>environ = home_env, calls = []\<rparr>
     = (Inl (Exc ''SecretNotFound'' ''smtp_creds''), \<lparr>environ = home_env, calls = []\<rparr>)"
proof -
  let ?r = "\<lparr>role_type = ''user'', user_id = Some ''u1''\<rparr>"
  let ?w = "\<lparr>w_func = send_email, w_key = ''integrations.default.send_email'',
        w_secrets = Some [''smtp_creds'']\<rparr>"
  have p: "pop_role [''__role'' \<mapsto> VRole ?r] = VRole ?r"
    by (simp add: pop_role_def)
  have s: "w_secrets ?w = Some [''smtp_creds'']" and n: "[''smtp_creds''] \<noteq> []"
    by simp_all
  have f: "batch_get_secrets (example_ext example_store) ?r [''smtp_creds'']
      = Inl (Exc ''SecretNotFound'' ''smtp_creds'')"
    by (simp add: example_ext_def example_store_def)
  from fetch_failure_propagates[OF p s n f, of "[VStr ''bob'']" "\<lparr>environ = home_env, calls = []\<rparr>"]
    p f show ?thesis by simp
qed

text \<open>When the callable raises \<open>e\<close> and the revert returns (the names of the applied
  records are accepted by \<^verbatim>\<open>os.environ\<close>, pairwise distinct and all still present),
  the wrapper raises the same \<open>e\<close>, with the injected names deleted.\<close>

lemma reraised_when_revert_returns:
  assumes "pop_role kwargs = VRole r"
    and "fetch_declared X w r = Inr ss"
    and "set_secrets ss (environ st) = (Inr (), env1)"
    and "call_func (w_func w) args (without_role kwargs) (st\<lparr>environ := env1\<rparr>) = (Inl e, st1)"
    and "list_all legal_name (injected_keys ss)"
    and "distinct (injected_keys ss)"
    and "set (injected_keys ss) \<subseteq> dom (environ st1)"
  shows "wrapper X w args kwargs st =
           (Inl e, st1\<lparr>environ := environ st1 |` (- set (injected_keys ss))\<rparr>)"
  using assms unset_secrets_ok[of ss "environ st1"]
  by (simp add: wrapper_def wrapper_try_eq)

text \<open>
  \<^bold>\<open>C6\<close>, at the failing input. \<^verbatim>\<open>explode\<close> is registered with the secrets \<^verbatim>\<open>a\<close>
  and \<^verbatim>\<open>b\<close>, which both carry \<^verbatim>\<open>TOKEN\<close>. The callable raises
  \<^verbatim>\<open>RuntimeError\<close>; the \<^verbatim>\<open>except\<close> clause re-raises it; in the \<^verbatim>\<open>finally\<close>
  clause the second \<^verbatim>\<open>del os.environ["TOKEN"]\<close> raises \<^verbatim>\<open>KeyError\<close>, and that is
  what the caller gets instead of the \<^verbatim>\<open>RuntimeError\<close>.
\<close>

theorem callable_exception_replaced_by_KeyError:
  "fst (call_func explode [] Map.empty \<lparr>environ = [''TOKEN'' \<mapsto> ''2''], calls = []\<rparr>)
     = Inl (Exc ''RuntimeError'' ''boom'')
   \<and> fst (wrapper (example_ext example_store)
       \<lparr>w_func = explode, w_key = ''integrations.default.explode'',
        w_secrets = Some [''a'', ''b'']\<rparr> [] Map.empty empty_world)
     = Inl (KeyError ''TOKEN'')
   \<and> Inl (KeyError ''TOKEN'') \<noteq> (Inl (Exc ''RuntimeError'' ''boom'') :: py_error + pyval)"
  by (simp add: wrapper_def wrapper_try_def pop_role_def without_role_def call_func_def
      example_ext_def example_store_def explode_def empty_world_def token_a_def token_b_def
      environ_setitem_def environ_delitem_def has_nul_def)

text \<open>
  \<^bold>\<open>C8\<close>. In every invocation the original callable is called at most once, and
  exactly when the role is a \<^verbatim>\<open>Role\<close>, the fetch and \<^verbatim>\<open>_set_secrets\<close> return and
  the object is callable. The call receives the positional arguments as given and the
  keyword arguments without \<^verbatim>\<open>"__role"\<close>: that key is never among them, and every
  other key has the value the caller passed. What the wrapper returns or raises is what
  the body of the callable does on exactly these arguments, followed by the revert.
\<close>

theorem role_consumed_arguments_forwarded:
  "calls (snd (wrapper X w args kwargs st)) =
     calls st @ (if reaches_call X w kwargs (environ st)
                 then [(args, without_role kwargs)] else [])
   \<and> without_role kwargs ''__role'' = None
   \<and> (\<forall>k. k \<noteq> ''__role'' \<longrightarrow> without_role kwargs k = kwargs k)
   \<and> (pop_role kwargs = VRole r \<and> fetch_declared X w r = Inr ss
        \<and> set_secrets ss (environ st) = (Inr (), env1) \<and> is_callable (w_func w)
        \<and> body (w_func w) args (without_role kwargs) env1 = (res, env2) \<longrightarrow>
      wrapper X w args kwargs st =
        (case unset_secrets ss env2 of
           (Inl e, env3) \<Rightarrow>
             (Inl e, \<lparr>environ = env3, calls = calls st @ [(args, without_role kwargs)]\<rparr>)
         | (Inr u, env3) \<Rightarrow>
             (res, \<lparr>environ = env3, calls = calls st @ [(args, without_role kwargs)]\<rparr>)))"
proof -
  have trace: "calls (snd (wrapper X w args kwargs st)) =
     calls st @ (if reaches_call X w kwargs (environ st)
                 then [(args, without_role kwargs)] else [])"
  proof (cases "pop_role kwargs")
    case (VRole r')
    show ?thesis
    proof (cases "fetch_declared X w r'")
      case (Inl e)
      then show ?thesis using VRole
        by (simp add: wrapper_def wrapper_try_eq reaches_call_def)
    next
      case (Inr ss')
      obtain o1 env1' where s: "set_secrets ss' (environ st) = (o1, env1')"
        by (cases "set_secrets ss' (environ st)")
      show ?thesis
      proof (cases o1)
        case (Inl e)
        with VRole Inr s show ?thesis
          by (simp add: wrapper_def wrapper_try_eq reaches_call_def split: prod.splits sum.splits)
      next
        case u: (Inr u)
        obtain res' st1 where c: "call_func (w_func w) args (without_role kwargs)
            (st\<lparr>environ := env1'\<rparr>) = (res', st1)"
          by (cases "call_func (w_func w) args (without_role kwargs) (st\<lparr>environ := env1'\<rparr>)")
        have "calls st1 =
            calls st @ (if is_callable (w_func w) then [(args, without_role kwargs)] else [])"
          using calls_call_func[of "w_func w" args "without_role kwargs"
              "st\<lparr>environ := env1'\<rparr>"] c by simp
        then show ?thesis using VRole Inr s u c
          by (simp add: wrapper_def wrapper_try_eq reaches_call_def split: prod.splits sum.splits)
      qed
    qed
  qed (simp_all add: wrapper_def reaches_call_def)
  have run: "wrapper X w args kwargs st =
        (case unset_secrets ss env2 of
           (Inl e, env3) \<Rightarrow>
             (Inl e, \<lparr>environ = env3, calls = calls st @ [(args, without_role kwargs)]\<rparr>)
         | (Inr u, env3) \<Rightarrow>
             (res, \<lparr>environ = env3, calls = calls st @ [(args, without_role kwargs)]\<rparr>))"
    if "pop_role kwargs = VRole r" and "fetch_declared X w r = Inr ss"
      and "set_secrets ss (environ st) = (Inr (), env1)" and "is_callable (w_func w)"
      and "body (w_func w) args (without_role kwargs) env1 = (res, env2)"
    using that
    by (simp add: wrapper_def wrapper_try_eq call_func_def split: prod.splits sum.splits)
  from trace run show ?thesis by (simp add: without_role_def)
qed

text \<open>Witness: \<^verbatim>\<open>echo_cc("bob", cc="eve", __role=Role(...))\<close>, registered with the
  secret \<^verbatim>\<open>smtp_host\<close>, calls the original with \<^verbatim>\<open>("bob", cc="eve")\<close> and
  returns \<^verbatim>\<open>"eve"\<close>.\<close>

theorem role_consumed_arguments_forwarded_witness:
  "calls (snd (wrapper (example_ext example_store)
       \<lparr>w_func = echo_cc, w_key = ''integrations.default.echo_cc'',
        w_secrets = Some [''smtp_host'']\<rparr>
       [VStr ''bob'']
       [''cc'' \<mapsto> VStr ''eve'', ''__role'' \<mapsto> VRole \<lparr>role_type = ''user'', user_id = Some ''u1''\<rparr>]
       empty_world))
     = [([VStr ''bob''], [''cc'' \<mapsto> VStr ''eve''])]
   \<and> wrapper (example_ext example_store)
       \<lparr>w_func = echo_cc, w_key = ''integrations.default.echo_cc'',
        w_secrets = Some [''smtp_host'']\<rparr>
       [VStr ''bob'']
       [''cc'' \<mapsto> VStr ''eve'', ''__role'' \<mapsto> VRole \<lparr>role_type = ''user'', user_id = Some ''u1''\<rparr>]
       empty_world
     = (Inr (VStr ''eve''),
        \<lparr>environ = Map.empty, calls = [([VStr ''bob''], [''cc'' \<mapsto> VStr ''eve''])]\<rparr>)"
proof -
  let ?X = "example_ext example_store"
  let ?r = "\<lparr>role_type = ''user'', user_id = Some ''u1''\<rparr>"
  let ?w = "\<lparr>w_func = echo_cc, w_key = ''integrations.default.echo_cc'',
        w_secrets = Some [''smtp_host'']\<rparr>"
  let ?kw = "[''cc'' \<mapsto> VStr ''eve'', ''__role'' \<mapsto> VRole ?r]"
  let ?env1 = "[''HOST'' \<mapsto> ''mail.example.org'']"
  have p: "pop_role ?kw = VRole ?r"
    by (simp add: pop_role_def)
  have f: "fetch_declared ?X ?w ?r = Inr [smtp_host]"
    by (simp add: fetch_declared_def example_ext_def example_store_def)
  have s: "set_secrets [smtp_host] (environ empty_world) = (Inr (), ?env1)"
    by (simp add: smtp_host_def empty_world_def environ_setitem_def has_nul_def)
  have c: "is_callable (w_func ?w)"
    by (simp add: echo_cc_def)
  have k: "without_role ?kw = [''cc'' \<mapsto> VStr ''eve'']"
    by (auto simp: without_role_def fun_eq_iff)
  have b: "body (w_func ?w) [VStr ''bob''] (without_role ?kw) ?env1 = (Inr (VStr ''eve''), ?env1)"
    by (simp add: k echo_cc_def)
  have r: "reaches_call ?X ?w ?kw (environ empty_world)"
    using p f s c by (simp add: reaches_call_def)
  have u: "unset_secrets [smtp_host] ?env1 = (Inr (), Map.empty)"
    by (simp add: smtp_host_def environ_delitem_def has_nul_def)
  from role_consumed_arguments_forwarded[of ?X ?w "[VStr ''bob'']" ?kw empty_world ?r
      "[smtp_host]" ?env1 "Inr (VStr ''eve'')" ?env1] p f s c b r u k
  show ?thesis by (simp add: empty_world_def)
qed

section \<open>Registration\<close>

lemma map_of_dict_setitem: "map_of (dict_setitem d k v) = (map_of d)(k \<mapsto> v)"
  by (induction d k v rule: dict_setitem.induct) (auto simp: fun_eq_iff)

lemma dict_contains_keys: "dict_contains d k \<longleftrightarrow> k \<in> set (dict_keys d)"
  by (simp add: dict_contains_def dict_keys_def map_of_eq_None_iff)

lemma dict_keys_setitem:
  "dict_keys (dict_setitem d k v) =
     (if k \<in> set (dict_keys d) then dict_keys d else dict_keys d @ [k])"
  by (induction d k v rule: dict_setitem.induct) (auto simp: dict_keys_def)

text \<open>An entry that is in \<^verbatim>\<open>_integrations\<close> is never written again, whatever is
  registered afterwards and however that attempt ends.\<close>

lemma register_keeps_entries:
  assumes "dict_contains (integrations reg) k'"
  shows "map_of (integrations (snd (decorator_register X d s kw func reg))) k' =
           map_of (integrations reg) k' \<and>
         map_of (metadata (snd (decorator_register X d s kw func reg))) k' =
           map_of (metadata reg) k'"
  using assms
  by (auto simp: decorator_register_def Let_def map_of_dict_setitem
      split: option.splits sum.splits)

text \<open>An object that is not callable never gets an entry.\<close>

lemma non_callable_adds_no_entry:
  "\<not> is_callable func \<Longrightarrow> \<exists>e. decorator_register X d s kw func reg = (Inl e, reg)"
  by (simp add: decorator_register_def split: option.splits sum.splits)

text \<open>
  \<^bold>\<open>C2\<close> (as amended). For an object that has a \<^verbatim>\<open>__name__\<close>, the failure checks
  come in the order validation, duplicate key, not callable: an exception of
  \<^verbatim>\<open>validate_type_constraints\<close> is raised whether or not the key is present and
  whether or not the object is callable; once validation and the resolution of
  platform and key have returned, a key that is present gives the duplicate error
  whether or not the object is callable; and the not-callable error is raised only
  for a key that is not present. The registry is unchanged in all three cases.
\<close>

theorem register_check_order:
  assumes "dunder_name func = Some n"
  shows "(validate_type_constraints X func = Some e \<longrightarrow>
            decorator_register X d s kw func reg = (Inl e, reg))
       \<and> (validate_type_constraints X func = None \<and> get_integration_platform X func = Inr p
            \<and> get_integration_key X func = Inr k \<and> dict_contains (integrations reg) k \<longrightarrow>
            decorator_register X d s kw func reg = (Inl (already_registered k), reg))
       \<and> (validate_type_constraints X func = None \<and> get_integration_platform X func = Inr p
            \<and> get_integration_key X func = Inr k \<and> \<not> dict_contains (integrations reg) k
            \<and> \<not> is_callable func \<longrightarrow>
            decorator_register X d s kw func reg = (Inl not_callable, reg))"
  using assms by (simp add: decorator_register_def)

lemma send_email_registered_keys:
  "dict_keys (integrations send_email_registered) = [''integrations.default.send_email'']"
  "dict_keys (metadata send_email_registered) = [''integrations.default.send_email'']"
  by (simp_all add: send_email_registered_def decorator_register_def example_ext_def
      send_email_def new_registry_def dict_contains_def create_spec_def Let_def dict_keys_def)

text \<open>Witness: on the registry that holds \<^verbatim>\<open>send_email\<close>, the union-typed
  \<^verbatim>\<open>send_email\<close> fails validation, \<^verbatim>\<open>send_email\<close> again is a duplicate, and the
  module \<^verbatim>\<open>helpers\<close> is not callable.\<close>

theorem register_check_order_witness:
  "decorator_register (example_ext example_store) ''Send mail'' None [] send_email_union
       send_email_registered
     = (Inl (ValueError ''Unsupported type''), send_email_registered)
   \<and> decorator_register (example_ext example_store) ''Send mail'' None [] send_email
       send_email_registered
     = (Inl (already_registered ''integrations.default.send_email''), send_email_registered)
   \<and> decorator_register (example_ext example_store) ''Helpers'' None [] module_object
       send_email_registered
     = (Inl not_callable, send_email_registered)"
proof -
  let ?X = "example_ext example_store"
  have c: "dict_contains (integrations send_email_registered) ''integrations.default.send_email''"
    and nc: "\<not> dict_contains (integrations send_email_registered) ''integrations.default.helpers''"
    by (simp_all add: dict_contains_keys send_email_registered_keys)
  have 1: "validate_type_constraints ?X send_email_union = Some (ValueError ''Unsupported type'')"
    by (simp add: example_ext_def send_email_union_def)
  have 2: "validate_type_constraints ?X send_email = None \<and>
      get_integration_platform ?X send_email = Inr ''default'' \<and>
      get_integration_key ?X send_email = Inr ''integrations.default.send_email''"
    by (simp add: example_ext_def send_email_def)
  have 3: "validate_type_constraints ?X module_object = None \<and>
      get_integration_platform ?X module_object = Inr ''default'' \<and>
      get_integration_key ?X module_object = Inr ''integrations.default.helpers'' \<and>
      \<not> is_callable module_object"
    by (simp add: example_ext_def module_object_def)
  have n1: "dunder_name send_email_union = Some ''send_email''"
    and n2: "dunder_name send_email = Some ''send_email''"
    and n3: "dunder_name module_object = Some ''helpers''"
    by (simp_all add: send_email_union_def send_email_def module_object_def)
  from register_check_order[OF n1, of ?X "ValueError ''Unsupported type''" "''Send mail''" None "[]"
      send_email_registered] 1
  have a: "decorator_register ?X ''Send mail'' None [] send_email_union send_email_registered
     = (Inl (ValueError ''Unsupported type''), send_email_registered)"
    by simp
  from register_check_order[OF n2, of ?X _ "''Send mail''" None "[]" send_email_registered
      "''default''" "''integrations.default.send_email''"] 2 c
  have b: "decorator_register ?X ''Send mail'' None [] send_email send_email_registered
     = (Inl (already_registered ''integrations.default.send_email''), send_email_registered)"
    by simp
  from register_check_order[OF n3, of ?X _ "''Helpers''" None "[]" send_email_registered
      "''default''" "''integrations.default.helpers''"] 3 nc
  have "decorator_register ?X ''Helpers'' None [] module_object send_email_registered
     = (Inl not_callable, send_email_registered)"
    by simp
  with a b show ?thesis by simp
qed

text \<open>
  \<^bold>\<open>C2\<close> as stated fails: \<^verbatim>\<open>send_email\<close> is registered, and a second
  \<^verbatim>\<open>send_email\<close> whose parameter has a union type resolves to the same key. Its
  registration raises the exception of validation, not the duplicate error.
\<close>

theorem validation_precedes_duplicate_check:
  "dict_contains (integrations send_email_registered) ''integrations.default.send_email''
   \<and> get_integration_key (example_ext example_store) send_email_union
       = Inr ''integrations.default.send_email''
   \<and> fst (decorator_register (example_ext example_store) ''Send mail'' None [] send_email_union
            send_email_registered)
       = Inl (ValueError ''Unsupported type'')
   \<and> fst (decorator_register (example_ext example_store) ''Send mail'' None [] send_email_union
            send_email_registered)
       \<noteq> Inl (already_registered ''integrations.default.send_email'')"
proof -
  have "dict_contains (integrations send_email_registered) ''integrations.default.send_email''"
    by (simp add: dict_contains_keys send_email_registered_keys)
  moreover have "get_integration_key (example_ext example_store) send_email_union
       = Inr ''integrations.default.send_email''"
    by (simp add: example_ext_def send_email_union_def)
  moreover have "fst (decorator_register (example_ext example_store) ''Send mail'' None []
        send_email_union send_email_registered) = Inl (ValueError ''Unsupported type'')"
    by (simp add: decorator_register_def example_ext_def send_email_union_def)
  ultimately show ?thesis by (simp add: already_registered_def)
qed

text \<open>
  \<^bold>\<open>C3\<close>, at the failing input. \<^verbatim>\<open>register(...)(42)\<close>: the first statement of
  \<^verbatim>\<open>decorator_register\<close> reads \<^verbatim>\<open>func.__name__\<close>, which an integer does not have,
  so the call ends with \<^verbatim>\<open>AttributeError\<close> before the check
  \<^verbatim>\<open>if not callable(func)\<close> is reached. (No entry is added:
  \<open>non_callable_adds_no_entry\<close>.)
\<close>

theorem register_int_raises_AttributeError:
  "decorator_register X d s kw int_object reg = (Inl (AttributeError ''__name__''), reg)
   \<and> Inl (AttributeError ''__name__'') \<noteq> (Inl not_callable :: py_error + wrapped)"
  by (simp add: decorator_register_def int_object_def not_callable_def)

text \<open>
  \<^bold>\<open>C4\<close> (as amended). A second registration that gets as far as the duplicate
  check with a key \<open>k\<close> already in the registry (the read of \<^verbatim>\<open>__name__\<close>,
  validation and the resolution of platform and key have returned) fails with the
  duplicate error and leaves the registry as it was. And no registration, however it
  ends (with the duplicate error or with an earlier exception), changes the wrapped
  callable or the metadata stored under a key \<open>k'\<close> that is in the registry.
\<close>

theorem duplicate_registration_rejected:
  "(dunder_name func = Some n \<and> validate_type_constraints X func = None
      \<and> get_integration_platform X func = Inr p \<and> get_integration_key X func = Inr k
      \<and> dict_contains (integrations reg) k \<longrightarrow>
      decorator_register X d s kw func reg = (Inl (already_registered k), reg))
   \<and> (dict_contains (integrations reg) k' \<longrightarrow>
        dict_getitem (integrations (snd (decorator_register X d s kw func reg))) k' =
          dict_getitem (integrations reg) k' \<and>
        dict_getitem (metadata (snd (decorator_register X d s kw func reg))) k' =
          dict_getitem (metadata reg) k')"
  using register_keeps_entries[of reg k' X d s kw func]
  by (simp add: decorator_register_def dict_getitem_def)

text \<open>Witness: \<^verbatim>\<open>send_email\<close> registered a second time, with another description.\<close>

theorem duplicate_registration_rejected_witness:
  "dict_contains (integrations send_email_registered) ''integrations.default.send_email''
   \<and> decorator_register (example_ext example_store) ''Other text'' (Some [''a'']) [] send_email
       send_email_registered
     = (Inl (already_registered ''integrations.default.send_email''), send_email_registered)
   \<and> dict_getitem (metadata (snd (decorator_register (example_ext example_store) ''Other text''
        (Some [''a'']) [] send_email send_email_registered))) ''integrations.default.send_email''
     = dict_getitem (metadata send_email_registered) ''integrations.default.send_email''"
proof -
  let ?X = "example_ext example_store"
  have c: "dict_contains (integrations send_email_registered) ''integrations.default.send_email''"
    by (simp add: dict_contains_keys send_email_registered_keys)
  have h: "dunder_name send_email = Some ''send_email'' \<and>
      validate_type_constraints ?X send_email = None \<and>
      get_integration_platform ?X send_email = Inr ''default'' \<and>
      get_integration_key ?X send_email = Inr ''integrations.default.send_email''"
    by (simp add: example_ext_def send_email_def)
  from duplicate_registration_rejected[of send_email "''send_email''" ?X "''default''"
      "''integrations.default.send_email''" send_email_registered "''Other text''"
      "Some [''a'']" "[]" "''integrations.default.send_email''"] h c
  show ?thesis by simp
qed

text \<open>
  \<^bold>\<open>C4\<close> as stated fails: \<^verbatim>\<open>send_email\<close> is registered, and a second
  \<^verbatim>\<open>send_email\<close> with a parameter \<^verbatim>\<open>retries: int | str = 3\<close> resolves to the
  same key. Its registration fails, but with the exception of validation and not with
  the duplicate error.
\<close>

theorem second_registration_fails_in_validation:
  "dict_contains (integrations send_email_registered) ''integrations.default.send_email''
   \<and> get_integration_key (example_ext example_store) send_email_retries
       = Inr ''integrations.default.send_email''
   \<and> decorator_register (example_ext example_store) ''Send mail'' None [] send_email_retries
        send_email_registered
       = (Inl (ValueError ''Unsupported type''), send_email_registered)
   \<and> Inl (ValueError ''Unsupported type'')
       \<noteq> (Inl (already_registered ''integrations.default.send_email'') :: py_error + wrapped)"
proof -
  have "dict_contains (integrations send_email_registered) ''integrations.default.send_email''"
    by (simp add: dict_contains_keys send_email_registered_keys)
  moreover have "get_integration_key (example_ext example_store) send_email_retries
       = Inr ''integrations.default.send_email''"
    by (simp add: example_ext_def send_email_retries_def)
  moreover have "decorator_register (example_ext example_store) ''Send mail'' None []
        send_email_retries send_email_registered
      = (Inl (ValueError ''Unsupported type''), send_email_registered)"
    by (simp add: decorator_register_def example_ext_def send_email_retries_def)
  ultimately show ?thesis by (simp add: already_registered_def)
qed

text \<open>
  \<^bold>\<open>C10\<close>, at the failing inputs. A callable that has a \<^verbatim>\<open>__name__\<close> and no
  \<^verbatim>\<open>__annotations__\<close> (a builtin such as \<^verbatim>\<open>len\<close>), accepted by validation and
  resolved to a new key: the wrapper is stored in \<^verbatim>\<open>_integrations\<close>, then the
  construction of the metadata dictionary raises \<^verbatim>\<open>AttributeError\<close>, and the key is
  in \<^verbatim>\<open>_integrations\<close> and not in \<^verbatim>\<open>_metadata\<close>.
\<close>

theorem register_crash_splits_maps:
  assumes "dunder_name func = Some n" and "validate_type_constraints X func = None"
    and "get_integration_platform X func = Inr p" and "get_integration_key X func = Inr k"
    and "is_callable func" and "dunder_annotations func = None"
    and "set (dict_keys (integrations reg)) = set (dict_keys (metadata reg))"
    and "\<not> dict_contains (integrations reg) k"
  shows "fst (decorator_register X d s kw func reg) = Inl (AttributeError ''__annotations__'') \<and>
         k \<in> set (dict_keys (integrations (snd (decorator_register X d s kw func reg)))) \<and>
         k \<notin> set (dict_keys (metadata (snd (decorator_register X d s kw func reg))))"
  using assms
  by (simp add: decorator_register_def Let_def dict_keys_setitem dict_contains_keys)

theorem register_crash_splits_maps_witness:
  "fst (decorator_register (example_ext example_store) ''Length'' None [] builtin_len
          send_email_registered) = Inl (AttributeError ''__annotations__'')
   \<and> ''integrations.default.len'' \<in> set (dict_keys (integrations (snd (decorator_register
        (example_ext example_store) ''Length'' None [] builtin_len send_email_registered))))
   \<and> ''integrations.default.len'' \<notin> set (dict_keys (metadata (snd (decorator_register
        (example_ext example_store) ''Length'' None [] builtin_len send_email_registered))))"
proof -
  let ?X = "example_ext example_store"
  have 1: "dunder_name builtin_len = Some ''len''"
    and 2: "validate_type_constraints ?X builtin_len = None"
    and 3: "get_integration_platform ?X builtin_len = Inr ''default''"
    and 4: "get_integration_key ?X builtin_len = Inr ''integrations.default.len''"
    and 5: "is_callable builtin_len" and 6: "dunder_annotations builtin_len = None"
    by (simp_all add: example_ext_def builtin_len_def)
  have 7: "set (dict_keys (integrations send_email_registered)) =
      set (dict_keys (metadata send_email_registered))"
    and 8: "\<not> dict_contains (integrations send_email_registered) ''integrations.default.len''"
    by (simp_all add: dict_contains_keys send_email_registered_keys)
  from register_crash_splits_maps[OF 1 2 3 4 5 6 7 8] show ?thesis .
qed

text \<open>
  \<^bold>\<open>C7\<close>, at the failing inputs. After the same attempt on a new registry,
  \<^verbatim>\<open>get_registered_integration_specs\<close> raises \<^verbatim>\<open>KeyError\<close> at
  \<^verbatim>\<open>self.metadata[key]\<close> instead of returning a list of specifications.
\<close>

theorem specs_after_crash_raise_KeyError:
  assumes "dunder_name func = Some n" and "validate_type_constraints X func = None"
    and "get_integration_platform X func = Inr p" and "get_integration_key X func = Inr k"
    and "is_callable func" and "dunder_annotations func = None"
  shows "get_registered_integration_specs
           (snd (decorator_register X d s kw func new_registry)) = Inl (KeyError k)"
  using assms
  by (simp add: decorator_register_def Let_def new_registry_def dict_contains_def
      get_registered_integration_specs_def dict_keys_def dict_getitem_def)

theorem specs_after_crash_raise_KeyError_witness:
  "get_registered_integration_specs
     (snd (decorator_register (example_ext example_store) ''Length'' None [] builtin_len
             new_registry)) = Inl (KeyError ''integrations.default.len'')"
proof -
  let ?X = "example_ext example_store"
  have 1: "dunder_name builtin_len = Some ''len''"
    and 2: "validate_type_constraints ?X builtin_len = None"
    and 3: "get_integration_platform ?X builtin_len = Inr ''default''"
    and 4: "get_integration_key ?X builtin_len = Inr ''integrations.default.len''"
    and 5: "is_callable builtin_len" and 6: "dunder_annotations builtin_len = None"
    by (simp_all add: example_ext_def builtin_len_def)
  from specs_after_crash_raise_KeyError[OF 1 2 3 4 5 6] show ?thesis .
qed

section \<open>What registration keeps, apart from the failure between the two stores\<close>

lemma dict_contains_setitem:
  "dict_contains (dict_setitem d k v) k' \<longleftrightarrow> k' = k \<or> dict_contains d k'"
  by (simp add: dict_contains_def map_of_dict_setitem)

lemma dict_contains_update:
  "dict_contains d k \<Longrightarrow> dict_contains (dict_update d e) k"
  by (induction d e rule: dict_update.induct) (simp_all add: dict_contains_setitem)

lemma list_all_dict_setitem:
  "list_all P d \<Longrightarrow> P (k, v) \<Longrightarrow> list_all P (dict_setitem d k v)"
  by (induction d k v rule: dict_setitem.induct) auto

text \<open>The three ways \<^verbatim>\<open>decorator_register\<close> can end.\<close>

lemma register_outcomes:
  assumes "decorator_register X d s kw func reg = (r, reg')"
  shows "(\<exists>e. r = Inl e \<and> reg' = reg)
       \<or> (\<exists>e k w. r = Inl e \<and> get_integration_key X func = Inr k
             \<and> \<not> dict_contains (integrations reg) k
             \<and> reg' = reg\<lparr>integrations := dict_setitem (integrations reg) k w\<rparr>)
       \<or> (\<exists>k w md. r = Inr w \<and> get_integration_key X func = Inr k \<and> w_key w = k \<and> w_func w = func
             \<and> \<not> dict_contains (integrations reg) k \<and> dict_contains md ''specification''
             \<and> reg' = reg\<lparr>integrations := dict_setitem (integrations reg) k w,
                           metadata := dict_setitem (metadata reg) k md\<rparr>)"
proof -
  have spec: "dict_contains
      (dict_update [(''platform'', a), (''description'', b), (''return_type'', c),
                    (''specification'', v)] kw) ''specification''" for a b c v :: pyval
    by (rule dict_contains_update) (simp add: dict_contains_def)
  show ?thesis
  proof (cases "dunder_name func")
    case None
    with assms show ?thesis by (auto simp: decorator_register_def)
  next
    case n: (Some n)
    show ?thesis
    proof (cases "validate_type_constraints X func")
      case (Some e)
      with assms n show ?thesis by (auto simp: decorator_register_def)
    next
      case v: None
      show ?thesis
      proof (cases "get_integration_platform X func")
        case (Inl e)
        with assms n v show ?thesis by (auto simp: decorator_register_def)
      next
        case p: (Inr p)
        show ?thesis
        proof (cases "get_integration_key X func")
          case (Inl e)
          with assms n v p show ?thesis by (auto simp: decorator_register_def)
        next
          case k: (Inr k)
          let ?w = "\<lparr>w_func = func, w_key = k, w_secrets = s\<rparr>"
          let ?reg1 = "reg\<lparr>integrations := dict_setitem (integrations reg) k ?w\<rparr>"
          show ?thesis
          proof (cases "dict_contains (integrations reg) k \<or> \<not> is_callable func")
            case True
            with assms n v p k have "reg' = reg" and "\<exists>e. r = Inl e"
              by (auto simp: decorator_register_def split: if_splits)
            then show ?thesis by blast
          next
            case checks: False
            show ?thesis
            proof (cases "dunder_annotations func")
              case None
              with assms n v p k checks have "r = Inl (AttributeError ''__annotations__'')"
                and "reg' = ?reg1"
                by (simp_all add: decorator_register_def Let_def)
              with k checks show ?thesis by blast
            next
              case a: (Some ann)
              show ?thesis
              proof (cases "create_spec X func d")
                case (Inl e)
                with assms n v p k checks a have "r = Inl e" and "reg' = ?reg1"
                  by (simp_all add: decorator_register_def Let_def)
                with k checks show ?thesis by blast
              next
                case (Inr sp)
                let ?md = "dict_update [(''platform'', VStr p), (''description'', VStr d),
                    (''return_type'', VStr (return_type_of ann)),
                    (''specification'', VSpec sp)] kw"
                from assms n v p k checks a Inr have "r = Inr ?w"
                  and "reg' = reg\<lparr>integrations := dict_setitem (integrations reg) k ?w,
                           metadata := dict_setitem (metadata reg) k ?md\<rparr>"
                  by (simp_all add: decorator_register_def Let_def)
                moreover have "dict_contains ?md ''specification''" by (rule spec)
                moreover have "w_key ?w = k" "w_func ?w = func" by simp_all
                ultimately show ?thesis using k checks by blast
              qed
            qed
          qed
        qed
      qed
    qed
  qed
qed

lemma consistent_new_registry: "consistent new_registry"
  by (simp add: consistent_def new_registry_def dict_keys_def)

text \<open>An attempt that succeeds, or that is rejected by a check, keeps the registry
  consistent; a success puts its key last.\<close>

lemma register_attempt_consistent:
  assumes "consistent reg" and "\<not> fails_between_stores X a reg"
  shows "consistent (snd (register_attempt X a reg))"
proof -
  obtain r reg' where o: "register_attempt X a reg = (r, reg')"
    by (cases "register_attempt X a reg")
  from register_outcomes[OF o[unfolded register_attempt_def]]
  consider (rejected) "reg' = reg"
    | (between) e k w where "r = Inl e" "\<not> dict_contains (integrations reg) k"
        "reg' = reg\<lparr>integrations := dict_setitem (integrations reg) k w\<rparr>"
    | (stored) k w md where "r = Inr w" "\<not> dict_contains (integrations reg) k"
        "dict_contains md ''specification''"
        "reg' = reg\<lparr>integrations := dict_setitem (integrations reg) k w,
                      metadata := dict_setitem (metadata reg) k md\<rparr>"
    by blast
  then show ?thesis
  proof cases
    case rejected
    with o assms show ?thesis by simp
  next
    case between
    have "dict_setitem (integrations reg) k w \<noteq> integrations reg"
      using between(2) by (metis dict_contains_setitem)
    with between o assms(2) show ?thesis
      by (simp add: fails_between_stores_def)
  next
    case stored
    with o assms(1) show ?thesis
      by (auto simp: consistent_def dict_keys_setitem dict_contains_keys
          intro: list_all_dict_setitem)
  qed
qed

lemma register_all_consistent:
  "consistent reg \<Longrightarrow> \<not> some_fails_between_stores X as reg \<Longrightarrow>
     consistent (register_all X as reg)"
  by (induction as arbitrary: reg) (simp_all add: register_attempt_consistent)

text \<open>On a consistent registry \<^verbatim>\<open>get_registered_integration_specs\<close> returns one
  value for each key, in the order of the keys.\<close>

lemma specs_of_keys_ok:
  assumes "list_all (\<lambda>km. dict_contains (snd km) ''specification'') md"
    and "set ks \<subseteq> set (dict_keys md)"
  shows "\<exists>vs. specs_of_keys md ks = Inr vs \<and> length vs = length ks"
  using assms(2)
proof (induction ks)
  case Nil
  then show ?case by simp
next
  case (Cons k ks)
  then obtain vs where vs: "specs_of_keys md ks = Inr vs" "length vs = length ks" by auto
  from Cons.prems have "k \<in> fst ` set md" by (simp add: dict_keys_def)
  then have "map_of md k \<noteq> None" by (simp add: map_of_eq_None_iff)
  then obtain m where m: "map_of md k = Some m" by blast
  then have "(k, m) \<in> set md" by (rule map_of_SomeD)
  with assms(1) have "dict_contains m ''specification''"
    by (auto simp: list_all_iff)
  then obtain v where "map_of m ''specification'' = Some v"
    by (auto simp: dict_contains_def)
  with m vs show ?case by (simp add: dict_getitem_def)
qed

lemma consistent_specs:
  assumes "consistent reg"
  shows "\<exists>vs. get_registered_integration_specs reg = Inr vs
              \<and> length vs = length (list_integrations reg)
              \<and> distinct (list_integrations reg)"
  using assms specs_of_keys_ok[of "metadata reg" "dict_keys (integrations reg)"]
  by (auto simp: consistent_def get_registered_integration_specs_def list_integrations_def)

text \<open>After any sequence of attempts none of which failed between the two stores, the
  specifications come one per registered key, and the keys are pairwise distinct.\<close>

lemma specs_after_attempts:
  assumes "\<not> some_fails_between_stores X as new_registry"
  shows "\<exists>vs. get_registered_integration_specs (register_all X as new_registry) = Inr vs
              \<and> length vs = length (list_integrations (register_all X as new_registry))
              \<and> distinct (list_integrations (register_all X as new_registry))"
  by (rule consistent_specs[OF register_all_consistent[OF consistent_new_registry assms]])

text \<open>Keys are only ever appended: the order of \<^verbatim>\<open>list_integrations\<close> is the order
  in which the keys were stored.\<close>

lemma register_attempt_appends:
  "\<exists>ks. list_integrations (snd (register_attempt X a reg)) = list_integrations reg @ ks
        \<and> length ks \<le> 1"
proof -
  obtain r reg' where o: "register_attempt X a reg = (r, reg')"
    by (cases "register_attempt X a reg")
  from register_outcomes[OF o[unfolded register_attempt_def]] o show ?thesis
    by (auto simp: list_integrations_def dict_keys_setitem dict_contains_keys)
qed

end
